theory Spec2Isabelle
  imports Main "HOL-Library.Sublist" "HOL-Library.Char_ord" "HOL-Library.List_Lexorder"
begin

section \<open>Strings\<close>

text \<open>
  A Python \<open>str\<close> is a sequence of code points. The model is \<open>string\<close>, a list of
  \<open>char\<close>, read as the code points 0 to 255 (Latin-1); \<open>of_char\<close> gives the code point.
  On these code points \<open>str.lower()\<close> works character by character: it adds 32 to
  \<open>A\<close>-\<open>Z\<close> (65-90) and to the upper-case letters 192-222 other than the
  multiplication sign 215, and leaves every other code point as it is.
\<close>

definition is_alnum :: "char \<Rightarrow> bool" where
  "is_alnum c =
     (let n = (of_char c :: nat)
      in (48 \<le> n \<and> n \<le> 57) \<or> (65 \<le> n \<and> n \<le> 90) \<or> (97 \<le> n \<and> n \<le> 122))"

definition is_lower_alnum :: "char \<Rightarrow> bool" where
  "is_lower_alnum c =
     (let n = (of_char c :: nat)
      in (48 \<le> n \<and> n \<le> 57) \<or> (97 \<le> n \<and> n \<le> 122))"

definition lower_char :: "char \<Rightarrow> char" where
  "lower_char c =
     (let n = (of_char c :: nat)
      in if (65 \<le> n \<and> n \<le> 90) \<or> (192 \<le> n \<and> n \<le> 222 \<and> n \<noteq> 215)
         then char_of (n + 32) else c)"

text \<open>\<open>s.lower()\<close>\<close>

definition lower :: "string \<Rightarrow> string" where
  "lower s = map lower_char s"

text \<open>
  \<open>re.sub('[^A-Za-z0-9]+', '', s)\<close>: scanning from the left, every maximal run of one
  or more characters outside \<open>[A-Za-z0-9]\<close> is a match and is replaced by the empty
  string; the other characters are copied.
\<close>

function re_sub_non_alnum :: "string \<Rightarrow> string" where
  "re_sub_non_alnum [] = []"
| "re_sub_non_alnum (c # cs) =
     (if is_alnum c then c # re_sub_non_alnum cs
      else re_sub_non_alnum (dropWhile (\<lambda>d. \<not> is_alnum d) cs))"
  by pat_completeness auto
termination
  by (relation "measure length") (auto simp: less_Suc_eq_le length_dropWhile_le)

text \<open>\<open>sub in s\<close> for two strings: \<open>sub\<close> occurs in \<open>s\<close> as a contiguous block.\<close>

fun py_contains :: "string \<Rightarrow> string \<Rightarrow> bool" where
  "py_contains [] sub = (sub = [])"
| "py_contains (c # cs) sub = (prefix sub (c # cs) \<or> py_contains cs sub)"

text \<open>
  \<open>s.replace(old, '')\<close>: the occurrences of \<open>old\<close> are found from the left, without
  overlap, and deleted. With an empty \<open>old\<close> and the empty replacement the string is
  returned as it is.
\<close>

function str_replace_empty :: "string \<Rightarrow> string \<Rightarrow> string" where
  "str_replace_empty old [] = []"
| "str_replace_empty old (c # cs) =
     (if old \<noteq> [] \<and> prefix old (c # cs)
      then str_replace_empty old (drop (length old) (c # cs))
      else c # str_replace_empty old cs)"
  by pat_completeness auto
termination
  by (relation "measure (\<lambda>(old, s). length s)") auto

section \<open>Data model\<close>

text \<open>
  The JSON objects the program reads are records with the keys it uses. A key that a
  response may lack is an \<open>option\<close> field (\<open>None\<close> when absent), so that the
  \<open>KeyError\<close> of a subscript and the default of \<open>dict.get\<close> are visible. The
  configuration, the tags and the movies carry their keys as Radarr and the
  configuration file provide them.
\<close>

datatype exn = KeyError | RequestException | OtherException

record config =
  radarrUrl :: string
  radarrApiKey :: string
  tmdbApiKey :: string
  tagPrefix :: string
  requiredProviders :: "string list"
  providerRegion :: string

record tag =
  label :: string
  tag_id :: int

record movie =
  title :: string
  tmdbId :: int
  tags :: "int list"

record provider =
  provider_name :: "string option"

record region_entry =
  flatrate :: "provider list option"

record tmdb_json =
  results :: "(string \<rightharpoonup> region_entry) option"

record region =
  iso_3166_1 :: string
  english_name :: string

text \<open>
  An HTTP response that arrived: its status code and what \<open>.json()\<close> gives, a parsed
  body or an exception.
\<close>

datatype 'a response = Response (status_code: nat) (json: "exn + 'a")

text \<open>
  The outside world of \<open>elsewherr.py\<close>: what reading the configuration file gives and
  what each request gives, \<open>Inl\<close> for an exception raised by the call itself. A
  request is answered by its content alone.
\<close>

record env =
  config_yaml :: "exn + config"
  radarr_tag_post :: "tag \<Rightarrow> exn + nat"
  radarr_tag_get :: "exn + tag list response"
  radarr_movie_get :: "exn + movie list response"
  tmdb_watch_providers :: "int \<Rightarrow> exn + tmdb_json response"

text \<open>
  What a run does, in order: the requests it sends and the lines it logs, one constructor
  for each \<open>requests\<close> call and each \<open>logging\<close> call of the source.
  \<open>Http_PutMovie\<close> and \<open>LogError_UpdatingMovie\<close> stand for the request and the
  handler of lines 105 and 108 of \<open>elsewherr.py\<close>.
\<close>

datatype event =
    LogInfo_LoadingConfig
  | LogError_LoadingConfig exn
  | LogInfo_RequiredProvidersLower "string list"
  | Http_PostTag tag
  | LogInfo_TagsPostResponse nat
  | LogError_CreatingTag string exn
  | Http_GetTags
  | LogInfo_TagsGetResponse nat
  | LogInfo_ExistingTags "tag list"
  | LogError_GettingTags exn
  | LogInfo_GettingAllMovies string
  | Http_GetMovies
  | LogInfo_NumberOfMovies nat
  | LogError_GettingMovies exn
  | LogInfo_WorkingOnAllMovies
  | LogInfo_Separator
  | LogInfo_MovieTitle string
  | LogInfo_TmdbId int
  | LogInfo_MovieRecord movie
  | Http_GetTmdbProviders int string
  | LogInfo_TmdbResponse nat
  | LogInfo_FlatRateProviders "provider list"
  | LogInfo_NoFlatrateProviders
  | LogError_GettingProviders string exn
  | LogInfo_AddingTag string
  | LogInfo_UpdatedMovie movie
  | Http_PutMovie movie
  | LogError_UpdatingMovie string exn
  | LogInfo_RemoveAllProviderTags
  | LogInfo_RemovingProviderId int
  | LogError_Unexpected exn

section \<open>elsewherr.py\<close>

text \<open>\<open>load_config\<close>: the parsed file, or the exception logged and raised again.\<close>

definition load_config :: "env \<Rightarrow> event list \<times> (exn + config)" where
  "load_config env =
     (case config_yaml env of
        Inl e \<Rightarrow> ([LogError_LoadingConfig e], Inl e)
      | Inr cfg \<Rightarrow> ([], Inr cfg))"

text \<open>
  \<open>create_provider_tags\<close>: one POST for each required provider; an exception of the
  POST is logged and the loop goes on.
\<close>

fun create_provider_tags_loop :: "env \<Rightarrow> config \<Rightarrow> string list \<Rightarrow> event list" where
  "create_provider_tags_loop env cfg [] = []"
| "create_provider_tags_loop env cfg (required_provider # rest) =
     (let provider_tag = lower (tagPrefix cfg @ re_sub_non_alnum required_provider);
          new_tag_json = \<lparr>label = provider_tag, tag_id = 0\<rparr>
      in Http_PostTag new_tag_json #
         (case radarr_tag_post env new_tag_json of
            Inr st \<Rightarrow> LogInfo_TagsPostResponse st
          | Inl e \<Rightarrow> LogError_CreatingTag required_provider e) #
         create_provider_tags_loop env cfg rest)"

definition create_provider_tags :: "env \<Rightarrow> config \<Rightarrow> event list" where
  "create_provider_tags env cfg = create_provider_tags_loop env cfg (requiredProviders cfg)"

text \<open>
  The list comprehension of lines 51 and 52: the existing tags whose label has the
  lower-cased prefix in it.
\<close>

definition select_tags_to_remove :: "config \<Rightarrow> tag list \<Rightarrow> tag list" where
  "select_tags_to_remove cfg existing_tags =
     filter (\<lambda>existing_tag. py_contains (label existing_tag) (lower (tagPrefix cfg)))
       existing_tags"

text \<open>
  The list comprehension of lines 53 to 55: the existing tags whose label, after
  \<open>replace\<close> has deleted the lower-cased prefix from it, is in \<open>required_providers_lower\<close>.
\<close>

definition select_tags_to_add :: "config \<Rightarrow> string list \<Rightarrow> tag list \<Rightarrow> tag list" where
  "select_tags_to_add cfg required_providers_lower existing_tags =
     filter (\<lambda>existing_tag.
               str_replace_empty (lower (tagPrefix cfg)) (label existing_tag)
                 \<in> set required_providers_lower)
       existing_tags"

text \<open>
  \<open>get_provider_tags\<close>: the request, then the two lists; an exception of the request
  or of \<open>.json()\<close> is logged and raised again.
\<close>

definition get_provider_tags ::
  "env \<Rightarrow> config \<Rightarrow> string list \<Rightarrow> event list \<times> (exn + tag list \<times> tag list)" where
  "get_provider_tags env cfg required_providers_lower =
     (case radarr_tag_get env of
        Inl e \<Rightarrow> ([Http_GetTags, LogError_GettingTags e], Inl e)
      | Inr radarr_tags_get \<Rightarrow>
          (case json radarr_tags_get of
             Inl e \<Rightarrow>
               ([Http_GetTags, LogInfo_TagsGetResponse (status_code radarr_tags_get),
                 LogError_GettingTags e], Inl e)
           | Inr existing_tags \<Rightarrow>
               ([Http_GetTags, LogInfo_TagsGetResponse (status_code radarr_tags_get),
                 LogInfo_ExistingTags existing_tags],
                Inr (select_tags_to_remove cfg existing_tags,
                     select_tags_to_add cfg required_providers_lower existing_tags))))"

text \<open>\<open>get_tmdb_providers\<close>: the request, the logged response, the parsed body.\<close>

definition get_tmdb_providers ::
  "env \<Rightarrow> int \<Rightarrow> string \<Rightarrow> string \<Rightarrow> event list \<times> (exn + tmdb_json)" where
  "get_tmdb_providers env tmdb_id api_key region_code =
     (case tmdb_watch_providers env tmdb_id of
        Inl e \<Rightarrow> ([Http_GetTmdbProviders tmdb_id api_key], Inl e)
      | Inr tmdb_response \<Rightarrow>
          ([Http_GetTmdbProviders tmdb_id api_key,
            LogInfo_TmdbResponse (status_code tmdb_response)], json tmdb_response))"

text \<open>\<open>tmdb_providers["results"][region]["flatrate"]\<close>, each subscript with its \<open>KeyError\<close>.\<close>

definition flatrate_of :: "tmdb_json \<Rightarrow> string \<Rightarrow> exn + provider list" where
  "flatrate_of tmdb_providers region_code =
     (case results tmdb_providers of
        None \<Rightarrow> Inl KeyError
      | Some by_region \<Rightarrow>
          (case by_region region_code of
             None \<Rightarrow> Inl KeyError
           | Some entry \<Rightarrow>
               (case flatrate entry of
                  None \<Rightarrow> Inl KeyError
                | Some providers \<Rightarrow> Inr providers)))"

text \<open>The loop of lines 95 to 98 over \<open>provider_tags_to_add\<close>.\<close>

fun match_tags :: "string \<Rightarrow> tag list \<Rightarrow> event list" where
  "match_tags tag_to_add [] = []"
| "match_tags tag_to_add (provider_tag_to_add # rest) =
     (if py_contains (label provider_tag_to_add) tag_to_add
      then LogInfo_AddingTag tag_to_add # match_tags tag_to_add rest
      else match_tags tag_to_add rest)"

text \<open>
  The loop of lines 91 to 98 over the providers of one movie. \<open>provider["provider_name"]\<close>
  is outside every \<open>try\<close>: its \<open>KeyError\<close> leaves the loop and the function.
\<close>

fun process_providers :: "config \<Rightarrow> tag list \<Rightarrow> provider list \<Rightarrow> event list \<times> exn option" where
  "process_providers cfg provider_tags_to_add [] = ([], None)"
| "process_providers cfg provider_tags_to_add (p # rest) =
     (case provider_name p of
        None \<Rightarrow> ([], Some KeyError)
      | Some name \<Rightarrow>
          (let tag_to_add = lower (tagPrefix cfg @ re_sub_non_alnum name);
               (evs, r) = process_providers cfg provider_tags_to_add rest
           in (match_tags tag_to_add provider_tags_to_add @ evs, r)))"

text \<open>
  One iteration of the loop of \<open>process_movies\<close>. The result is the trace, the movie
  record as the iteration leaves it (\<open>update\<close> is the movie itself; the lines that
  would change its tags and send it are comments) and the exception that escapes, if any.
\<close>

definition process_movie ::
  "env \<Rightarrow> config \<Rightarrow> tag list \<Rightarrow> tag list \<Rightarrow> movie \<Rightarrow> event list \<times> movie \<times> exn option" where
  "process_movie env cfg provider_tags_to_remove provider_tags_to_add m =
     (let update = m;
          header = [LogInfo_Separator, LogInfo_MovieTitle (title m), LogInfo_TmdbId (tmdbId m),
                    LogInfo_MovieRecord m];
          (ev, r) = get_tmdb_providers env (tmdbId m) (tmdbApiKey cfg) (providerRegion cfg);
          looked_up = (case r of Inl e \<Rightarrow> Inl e
                       | Inr tmdb_providers \<Rightarrow> flatrate_of tmdb_providers (providerRegion cfg))
      in case looked_up of
           Inl KeyError \<Rightarrow> (header @ ev @ [LogInfo_NoFlatrateProviders], update, None)
         | Inl e \<Rightarrow> (header @ ev @ [LogError_GettingProviders (title m) e], update, None)
         | Inr providers \<Rightarrow>
             (case process_providers cfg provider_tags_to_add providers of
                (ev2, Some e) \<Rightarrow>
                  (header @ ev @ [LogInfo_FlatRateProviders providers] @ ev2, update, Some e)
              | (ev2, None) \<Rightarrow>
                  (header @ ev @ [LogInfo_FlatRateProviders providers] @ ev2 @
                   [LogInfo_UpdatedMovie update], update, None)))"

text \<open>
  \<open>process_movies\<close>: the trace, the movie records after the call and the exception
  that ends the call early, if any.
\<close>

fun process_movies ::
  "env \<Rightarrow> movie list \<Rightarrow> config \<Rightarrow> tag list \<Rightarrow> tag list \<Rightarrow> event list \<times> movie list \<times> exn option" where
  "process_movies env [] cfg provider_tags_to_remove provider_tags_to_add = ([], [], None)"
| "process_movies env (m # rest) cfg provider_tags_to_remove provider_tags_to_add =
     (case process_movie env cfg provider_tags_to_remove provider_tags_to_add m of
        (ev, m', Some e) \<Rightarrow> (ev, m' # rest, Some e)
      | (ev, m', None) \<Rightarrow>
          (case process_movies env rest cfg provider_tags_to_remove provider_tags_to_add of
             (evs, rest', r) \<Rightarrow> (ev @ evs, m' # rest', r)))"

text \<open>
  \<open>update_tags.remove(x)\<close>: deletes the first occurrence of \<open>x\<close>, \<open>ValueError\<close>
  (here \<open>None\<close>) when there is none.
\<close>

definition list_remove :: "int list \<Rightarrow> int \<Rightarrow> int list option" where
  "list_remove xs x = (if x \<in> set xs then Some (remove1 x xs) else None)"

text \<open>\<open>remove_provider_tags\<close>: the trace and the returned list.\<close>

fun remove_provider_tags_loop :: "int list \<Rightarrow> tag list \<Rightarrow> event list \<times> int list" where
  "remove_provider_tags_loop update_tags [] = ([], update_tags)"
| "remove_provider_tags_loop update_tags (provider_ids_to_remove # rest) =
     (case list_remove update_tags (tag_id provider_ids_to_remove) of
        None \<Rightarrow> remove_provider_tags_loop update_tags rest
      | Some update_tags' \<Rightarrow>
          (case remove_provider_tags_loop update_tags' rest of
             (evs, res) \<Rightarrow> (LogInfo_RemovingProviderId (tag_id provider_ids_to_remove) # evs, res)))"

definition remove_provider_tags :: "int list \<Rightarrow> tag list \<Rightarrow> event list \<times> int list" where
  "remove_provider_tags update_tags provider_tags_to_remove =
     (case remove_provider_tags_loop update_tags provider_tags_to_remove of
        (evs, res) \<Rightarrow> (LogInfo_RemoveAllProviderTags # evs, res))"

text \<open>
  \<open>get_movies_from_radarr\<close>: a \<open>RequestException\<close> (of the request, of
  \<open>raise_for_status\<close> on a status from 400 to 599, or of \<open>.json()\<close>) is logged and gives the
  empty list; any other exception is raised.
\<close>

definition get_movies_from_radarr :: "env \<Rightarrow> config \<Rightarrow> event list \<times> (exn + movie list)" where
  "get_movies_from_radarr env cfg =
     (let radarr_url = radarrUrl cfg @ ''/api/v3/movie'';
          start = [LogInfo_GettingAllMovies radarr_url, Http_GetMovies];
          attempt =
            (case radarr_movie_get env of
               Inl e \<Rightarrow> Inl e
             | Inr radarr_response \<Rightarrow>
                 if 400 \<le> status_code radarr_response \<and> status_code radarr_response < 600
                 then Inl RequestException
                 else json radarr_response)
      in case attempt of
           Inr movies \<Rightarrow> (start @ [LogInfo_NumberOfMovies (length movies)], Inr movies)
         | Inl RequestException \<Rightarrow> (start @ [LogError_GettingMovies RequestException], Inr [])
         | Inl e \<Rightarrow> (start, Inl e))"

text \<open>\<open>main\<close>: the trace of a run; every exception that reaches it is logged there.\<close>

definition main :: "env \<Rightarrow> event list" where
  "main env =
     LogInfo_LoadingConfig #
     (case load_config env of
        (ev0, Inl e) \<Rightarrow> ev0 @ [LogError_Unexpected e]
      | (ev0, Inr cfg) \<Rightarrow>
          (let required_providers_lower =
                 map (\<lambda>x. lower (re_sub_non_alnum x)) (requiredProviders cfg);
               ev1 = ev0 @ [LogInfo_RequiredProvidersLower required_providers_lower] @
                     create_provider_tags env cfg
           in case get_provider_tags env cfg required_providers_lower of
                (ev2, Inl e) \<Rightarrow> ev1 @ ev2 @ [LogError_Unexpected e]
              | (ev2, Inr (provider_tags_to_remove, provider_tags_to_add)) \<Rightarrow>
                  (case get_movies_from_radarr env cfg of
                     (ev3, Inl e) \<Rightarrow> ev1 @ ev2 @ ev3 @ [LogError_Unexpected e]
                   | (ev3, Inr movies) \<Rightarrow>
                       (case process_movies env movies cfg provider_tags_to_remove
                               provider_tags_to_add of
                          (ev4, _, Some e) \<Rightarrow>
                            ev1 @ ev2 @ ev3 @ [LogInfo_WorkingOnAllMovies] @ ev4 @
                            [LogError_Unexpected e]
                        | (ev4, _, None) \<Rightarrow>
                            ev1 @ ev2 @ ev3 @ [LogInfo_WorkingOnAllMovies] @ ev4))))"

section \<open>providers.py\<close>

text \<open>
  The outside world of \<open>providers.py\<close>: the configuration file and the two TMDB
  reference lists, each asked for with an endpoint and an API key. The parsed body of a
  list is its \<open>results\<close> array, \<open>None\<close> when the body has no such key. The files are a
  map from paths to contents. The log lines of this script are left out.
\<close>

record dump_env =
  dump_config_yaml :: "exn + config"
  tmdb_regions_get :: "string \<Rightarrow> string \<Rightarrow> exn + region list option response"
  tmdb_providers_get :: "string \<Rightarrow> string \<Rightarrow> exn + provider list option response"

type_synonym file_system = "string \<rightharpoonup> string"

definition DEFAULT_PROVIDERS_FILENAME :: string where
  "DEFAULT_PROVIDERS_FILENAME = ''providers.txt''"

definition TMDB_REGIONS_ENDPOINT :: string where
  "TMDB_REGIONS_ENDPOINT = ''https://api.themoviedb.org/3/watch/providers/regions''"

definition TMDB_PROVIDERS_ENDPOINT :: string where
  "TMDB_PROVIDERS_ENDPOINT = ''https://api.themoviedb.org/3/watch/providers/movie''"

definition newline :: string where
  "newline = [CHR 0x0A]"

definition tab :: string where
  "tab = [CHR 0x09]"

definition remove_existing_file :: "file_system \<Rightarrow> string \<Rightarrow> file_system" where
  "remove_existing_file fs file_path =
     (if fs file_path \<noteq> None then fs(file_path := None) else fs)"

text \<open>
  \<open>fetch_data\<close>: an exception of the request, of \<open>raise_for_status\<close> (a status from
  400 to 599) or of \<open>.json()\<close> is raised; otherwise \<open>.get("results", [])\<close>.
\<close>

definition fetch_data ::
  "(string \<Rightarrow> string \<Rightarrow> exn + 'a list option response) \<Rightarrow> string \<Rightarrow> string \<Rightarrow> exn + 'a list" where
  "fetch_data http_get api_endpoint api_key =
     (case http_get api_endpoint api_key of
        Inl e \<Rightarrow> Inl e
      | Inr resp \<Rightarrow>
          if 400 \<le> status_code resp \<and> status_code resp < 600 then Inl RequestException
          else (case json resp of
                  Inl e \<Rightarrow> Inl e
                | Inr body \<Rightarrow> Inr (case body of None \<Rightarrow> [] | Some rs \<Rightarrow> rs)))"

text \<open>\<open>write_to_file\<close>: the file is opened for appending.\<close>

definition write_to_file ::
  "file_system \<Rightarrow> string \<Rightarrow> region list \<Rightarrow> string list \<Rightarrow> file_system" where
  "write_to_file fs file_path regions providers =
     fs(file_path \<mapsto>
          (case fs file_path of None \<Rightarrow> [] | Some old \<Rightarrow> old) @
          ''Regions'' @ newline @ ''-------'' @ newline @
          concat (map (\<lambda>r. iso_3166_1 r @ tab @ english_name r @ newline) regions) @
          newline @ newline @ ''Providers'' @ newline @ ''---------'' @ newline @
          concat (map (\<lambda>p. p @ newline) providers))"

text \<open>
  Line 91, \<open>sorted(set(p.get("provider_name", "") for p in providers))\<close>: the names as a
  set, then as the sorted list of that set. Strings are compared as Python compares
  them, code point by code point, a proper prefix before its extensions.
\<close>

definition all_providers_of :: "provider list \<Rightarrow> string list" where
  "all_providers_of providers =
     sorted_list_of_set
       (set (map (\<lambda>p. case provider_name p of None \<Rightarrow> [] | Some n \<Rightarrow> n) providers))"

text \<open>
  \<open>main\<close> of \<open>providers.py\<close>: the files after the run and the exception that ended
  it, if any.
\<close>

definition providers_main :: "dump_env \<Rightarrow> file_system \<Rightarrow> file_system \<times> exn option" where
  "providers_main env fs =
     (case dump_config_yaml env of
        Inl e \<Rightarrow> (fs, Some e)
      | Inr cfg \<Rightarrow>
          (let api_key = tmdbApiKey cfg;
               fs1 = remove_existing_file fs DEFAULT_PROVIDERS_FILENAME
           in case fetch_data (tmdb_regions_get env) TMDB_REGIONS_ENDPOINT api_key of
                Inl e \<Rightarrow> (fs1, Some e)
              | Inr regions \<Rightarrow>
                  (case fetch_data (tmdb_providers_get env) TMDB_PROVIDERS_ENDPOINT api_key of
                     Inl e \<Rightarrow> (fs1, Some e)
                   | Inr providers \<Rightarrow>
                       (write_to_file fs1 DEFAULT_PROVIDERS_FILENAME regions
                          (all_providers_of providers), None))))"

section \<open>The specification's words\<close>

text \<open>
  The label of a managed tag as the specification writes it:
  \<open>lowercase(prefix + name)\<close> with every character of the name outside \<open>[A-Za-z0-9]\<close>
  removed.
\<close>

definition spec_tag_label :: "string \<Rightarrow> string \<Rightarrow> string" where
  "spec_tag_label prefix_str name =
     lower (prefix_str @
            filter (\<lambda>c. c \<in> set ''ABCDEFGHIJKLMNOPQRSTUVWXYZabcdefghijklmnopqrstuvwxyz0123456789'')
              name)"



text \<open>
  A TMDB body with no flat-rate providers for a region: \<open>results\<close>, the region under
  it or \<open>flatrate\<close> under the region is absent.
\<close>

definition lacks_flatrate :: "tmdb_json \<Rightarrow> string \<Rightarrow> bool" where
  "lacks_flatrate tmdb_providers region_code =
     (case results tmdb_providers of
        None \<Rightarrow> True
      | Some by_region \<Rightarrow>
          (case by_region region_code of
             None \<Rightarrow> True
           | Some entry \<Rightarrow> flatrate entry = None))"

text \<open>
  The tag listing fails with \<open>e\<close>: the request raises \<open>e\<close>, or the response arrives
  and \<open>.json()\<close> raises \<open>e\<close>.
\<close>

definition tag_listing_error :: "env \<Rightarrow> exn option" where
  "tag_listing_error env =
     (case radarr_tag_get env of
        Inl e \<Rightarrow> Some e
      | Inr resp \<Rightarrow> (case json resp of Inl e \<Rightarrow> Some e | Inr _ \<Rightarrow> None))"

section \<open>Example data\<close>

text \<open>
  A library of two movies with the prefix \<open>t-\<close> and the required providers Netflix and
  Hulu: the first movie streams on both in the region US, the second has no entry for
  the region.
\<close>

definition example_config :: config where
  "example_config =
     \<lparr>radarrUrl = ''http://localhost:7878'', radarrApiKey = ''radarr-key'',
      tmdbApiKey = ''tmdb-key'', tagPrefix = ''t-'',
      requiredProviders = [''Netflix'', ''Hulu''], providerRegion = ''US''\<rparr>"

definition example_tags :: "tag list" where
  "example_tags =
     [\<lparr>label = ''t-netflix'', tag_id = 10\<rparr>, \<lparr>label = ''t-hulu'', tag_id = 11\<rparr>,
      \<lparr>label = ''4k'', tag_id = 12\<rparr>]"

definition example_movies :: "movie list" where
  "example_movies =
     [\<lparr>title = ''Alien'', tmdbId = 348, tags = [12]\<rparr>,
      \<lparr>title = ''Heat'', tmdbId = 949, tags = []\<rparr>]"

definition example_tmdb :: "int \<Rightarrow> exn + tmdb_json response" where
  "example_tmdb i =
     (if i = 348
      then Inr (Response 200 (Inr \<lparr>results = Some [''US'' \<mapsto>
             \<lparr>flatrate = Some [\<lparr>provider_name = Some ''Netflix''\<rparr>,
                               \<lparr>provider_name = Some ''Hulu''\<rparr>]\<rparr>]\<rparr>))
      else Inr (Response 200 (Inr \<lparr>results = Some Map.empty\<rparr>)))"

definition example_tag_post :: "tag \<Rightarrow> exn + nat" where
  "example_tag_post t = Inr 201"

definition example_env :: env where
  "example_env =
     \<lparr>config_yaml = Inr example_config,
      radarr_tag_post = example_tag_post,
      radarr_tag_get = Inr (Response 200 (Inr example_tags)),
      radarr_movie_get = Inr (Response 200 (Inr example_movies)),
      tmdb_watch_providers = example_tmdb\<rparr>"

text \<open>
  The reference lists of the specification's example: one region and the providers
  Netflix, Hulu, Netflix; a second list of providers in which one record has no
  \<open>provider_name\<close>; and a third with a name that starts with a small letter.
\<close>

definition example_regions_get :: "string \<Rightarrow> string \<Rightarrow> exn + region list option response" where
  "example_regions_get api_endpoint api_key =
     Inr (Response 200 (Inr (Some [\<lparr>iso_3166_1 = ''US'', english_name = ''United States''\<rparr>])))"

definition example_providers_get ::
  "string \<Rightarrow> string \<Rightarrow> exn + provider list option response" where
  "example_providers_get api_endpoint api_key =
     Inr (Response 200 (Inr (Some [\<lparr>provider_name = Some ''Netflix''\<rparr>,
                                   \<lparr>provider_name = Some ''Hulu''\<rparr>,
                                   \<lparr>provider_name = Some ''Netflix''\<rparr>])))"

definition example_providers_get_unnamed ::
  "string \<Rightarrow> string \<Rightarrow> exn + provider list option response" where
  "example_providers_get_unnamed api_endpoint api_key =
     Inr (Response 200 (Inr (Some [\<lparr>provider_name = Some ''Netflix''\<rparr>,
                                   \<lparr>provider_name = None\<rparr>,
                                   \<lparr>provider_name = Some ''Hulu''\<rparr>])))"


definition example_dump_env :: dump_env where
  "example_dump_env =
     \<lparr>dump_config_yaml = Inr example_config,
      tmdb_regions_get = example_regions_get,
      tmdb_providers_get = example_providers_get\<rparr>"

section \<open>Properties of the string operations\<close>

lemma re_sub_non_alnum_filter: "re_sub_non_alnum s = filter is_alnum s"
proof (induction s rule: re_sub_non_alnum.induct)
  case 1
  show ?case by simp
next
  case (2 c cs)
  show ?case
  proof (cases "is_alnum c")
    case True
    with 2 show ?thesis by simp
  next
    case False
    have "filter is_alnum (dropWhile (\<lambda>d. \<not> is_alnum d) cs) = filter is_alnum cs"
      by (induction cs) auto
    with False 2 show ?thesis by simp
  qed
qed

lemma lower_char_alnum: "is_alnum c \<Longrightarrow> is_lower_alnum (lower_char c)"
  by (auto simp: is_alnum_def is_lower_alnum_def lower_char_def Let_def)

lemma lower_char_fixed: "is_lower_alnum c \<Longrightarrow> lower_char c = c"
  by (auto simp: is_lower_alnum_def lower_char_def Let_def)

lemma is_lower_alnum_is_alnum: "is_lower_alnum c \<Longrightarrow> is_alnum c"
  by (auto simp: is_lower_alnum_def is_alnum_def Let_def)

lemma lower_char_idem: "lower_char (lower_char c) = lower_char c"
proof -
  have "of_char c < (256::nat)" by simp
  then show ?thesis
    by (auto simp: lower_char_def Let_def)
qed

lemma py_contains_sublist: "py_contains s sub = sublist sub s"
  by (induction s) (auto simp: sublist_Cons_right)

lemma is_alnum_chars:
  "is_alnum c \<longleftrightarrow>
     c \<in> set ''ABCDEFGHIJKLMNOPQRSTUVWXYZabcdefghijklmnopqrstuvwxyz0123456789''"
  by (cases c) (auto simp: is_alnum_def)

lemma is_lower_alnum_chars:
  "is_lower_alnum c \<longleftrightarrow> c \<in> set ''abcdefghijklmnopqrstuvwxyz0123456789''"
  by (cases c) (auto simp: is_lower_alnum_def)



lemma code_label: "lower (p @ re_sub_non_alnum n) = spec_tag_label p n"
  by (simp add: spec_tag_label_def re_sub_non_alnum_filter is_alnum_chars [abs_def])

section \<open>The normalisation of provider names\<close>

text \<open>
  Claim C9. The normalisation of line 157 (and of line 30 without the prefix),
  \<open>re.sub('[^A-Za-z0-9]+', '', x).lower()\<close>, is idempotent: applied to its own output it
  returns the output unchanged. Every character of the output is one of \<open>a\<close> to \<open>z\<close>
  or \<open>0\<close> to \<open>9\<close>.
\<close>

theorem normalization_idempotent:
  "lower (re_sub_non_alnum (lower (re_sub_non_alnum s))) = lower (re_sub_non_alnum s)
   \<and> (\<forall>c \<in> set (lower (re_sub_non_alnum s)).
         c \<in> set ''abcdefghijklmnopqrstuvwxyz0123456789'')"
proof -
  let ?n = "lower (re_sub_non_alnum s)"
  have low: "\<forall>c \<in> set ?n. is_lower_alnum c"
    by (auto simp: lower_def re_sub_non_alnum_filter lower_char_alnum)
  then have "filter is_alnum ?n = ?n"
    by (auto intro!: filter_True is_lower_alnum_is_alnum)
  moreover from low have "map lower_char ?n = ?n"
    by (auto intro!: map_idI lower_char_fixed)
  ultimately have "lower (re_sub_non_alnum ?n) = ?n"
    by (simp add: re_sub_non_alnum_filter lower_def)
  with low show ?thesis by (simp add: is_lower_alnum_chars)
qed

theorem normalization_idempotent_witness:
  "CHR ''a'' \<in> set (lower (re_sub_non_alnum ''Apple TV+''))
   \<and> CHR ''a'' \<in> set ''abcdefghijklmnopqrstuvwxyz0123456789''
   \<and> lower (re_sub_non_alnum ''Apple TV+'') = ''appletv''
   \<and> lower (re_sub_non_alnum (lower (re_sub_non_alnum ''Apple TV+''))) = ''appletv''"
  using normalization_idempotent [of "''Apple TV+''"] by code_simp

section \<open>The label of a managed tag\<close>

lemma create_provider_tags_loop_spec:
  "create_provider_tags_loop env cfg names =
     concat (map (\<lambda>n. [Http_PostTag \<lparr>label = spec_tag_label (tagPrefix cfg) n, tag_id = 0\<rparr>,
                        (case radarr_tag_post env
                                \<lparr>label = spec_tag_label (tagPrefix cfg) n, tag_id = 0\<rparr> of
                           Inr st \<Rightarrow> LogInfo_TagsPostResponse st
                         | Inl e \<Rightarrow> LogError_CreatingTag n e)]) names)"
  by (induction names) (simp_all add: code_label Let_def)

lemma match_tags_filter:
  "match_tags l add = map (\<lambda>t. LogInfo_AddingTag l) (filter (\<lambda>t. sublist l (label t)) add)"
  by (induction add) (simp_all add: py_contains_sublist)

lemma process_providers_named:
  "process_providers cfg add (map (\<lambda>n. \<lparr>provider_name = Some n\<rparr>) names) =
     (concat (map (\<lambda>n. match_tags (spec_tag_label (tagPrefix cfg) n) add) names), None)"
  by (induction names) (simp_all add: code_label Let_def)

lemma process_movie_named:
  assumes "tmdb_watch_providers env (tmdbId m) = Inr (Response st (Inr js))"
    and "results js = Some by_region"
    and "by_region (providerRegion cfg) = Some entry"
    and "flatrate entry = Some (map (\<lambda>n. \<lparr>provider_name = Some n\<rparr>) names)"
  shows "process_movie env cfg rem add m =
     ([LogInfo_Separator, LogInfo_MovieTitle (title m), LogInfo_TmdbId (tmdbId m),
       LogInfo_MovieRecord m, Http_GetTmdbProviders (tmdbId m) (tmdbApiKey cfg),
       LogInfo_TmdbResponse st,
       LogInfo_FlatRateProviders (map (\<lambda>n. \<lparr>provider_name = Some n\<rparr>) names)] @
      concat (map (\<lambda>n. map (\<lambda>t. LogInfo_AddingTag (spec_tag_label (tagPrefix cfg) n))
                            (filter (\<lambda>t. sublist (spec_tag_label (tagPrefix cfg) n) (label t))
                               add))
                    names) @
      [LogInfo_UpdatedMovie m], m, None)"
  using assms
  by (simp add: process_movie_def get_tmdb_providers_def flatrate_of_def
        process_providers_named match_tags_filter)

text \<open>
  Claim C1. The label the program derives for a provider name is the specification's
  \<open>lowercase(prefix + name without the characters outside [A-Za-z0-9])\<close>, at both
  places. \<open>create_provider_tags\<close> posts, for each required provider in turn, the tag
  with that label and id 0, and logs the outcome. \<open>process_movies\<close>, for a movie whose
  TMDB answer lists providers with the names \<open>names\<close> under the configured region,
  logs "Adding tag" with that label for each name in turn, once for each tag of
  \<open>provider_tags_to_add\<close> whose label has it as a contiguous part, between the lines
  for the providers found and for the updated movie; it then goes on with the remaining
  movies. The same holds of the loop over the providers taken alone.
\<close>

theorem tag_label_derivation:
  "create_provider_tags env cfg =
     concat (map (\<lambda>n. [Http_PostTag \<lparr>label = spec_tag_label (tagPrefix cfg) n, tag_id = 0\<rparr>,
                        (case radarr_tag_post env
                                \<lparr>label = spec_tag_label (tagPrefix cfg) n, tag_id = 0\<rparr> of
                           Inr st \<Rightarrow> LogInfo_TagsPostResponse st
                         | Inl e \<Rightarrow> LogError_CreatingTag n e)]) (requiredProviders cfg))
   \<and> process_providers cfg add (map (\<lambda>n. \<lparr>provider_name = Some n\<rparr>) names) =
       (concat (map (\<lambda>n. map (\<lambda>t. LogInfo_AddingTag (spec_tag_label (tagPrefix cfg) n))
                            (filter (\<lambda>t. sublist (spec_tag_label (tagPrefix cfg) n) (label t))
                               add))
                    names), None)
   \<and> (tmdb_watch_providers env (tmdbId m) = Inr (Response st (Inr js)) \<and>
      results js = Some by_region \<and> by_region (providerRegion cfg) = Some entry \<and>
      flatrate entry = Some (map (\<lambda>n. \<lparr>provider_name = Some n\<rparr>) names) \<longrightarrow>
      process_movie env cfg rem add m =
        ([LogInfo_Separator, LogInfo_MovieTitle (title m), LogInfo_TmdbId (tmdbId m),
          LogInfo_MovieRecord m, Http_GetTmdbProviders (tmdbId m) (tmdbApiKey cfg),
          LogInfo_TmdbResponse st,
          LogInfo_FlatRateProviders (map (\<lambda>n. \<lparr>provider_name = Some n\<rparr>) names)] @
         concat (map (\<lambda>n. map (\<lambda>t. LogInfo_AddingTag (spec_tag_label (tagPrefix cfg) n))
                               (filter (\<lambda>t. sublist (spec_tag_label (tagPrefix cfg) n) (label t))
                                  add))
                       names) @
         [LogInfo_UpdatedMovie m], m, None)
      \<and> process_movies env (m # rest) cfg rem add =
          (case process_movies env rest cfg rem add of
             (evs, rest', r) \<Rightarrow>
               ([LogInfo_Separator, LogInfo_MovieTitle (title m), LogInfo_TmdbId (tmdbId m),
                 LogInfo_MovieRecord m, Http_GetTmdbProviders (tmdbId m) (tmdbApiKey cfg),
                 LogInfo_TmdbResponse st,
                 LogInfo_FlatRateProviders (map (\<lambda>n. \<lparr>provider_name = Some n\<rparr>) names)] @
                concat (map (\<lambda>n. map (\<lambda>t. LogInfo_AddingTag (spec_tag_label (tagPrefix cfg) n))
                                      (filter (\<lambda>t. sublist (spec_tag_label (tagPrefix cfg) n)
                                                     (label t)) add))
                              names) @
                [LogInfo_UpdatedMovie m] @ evs, m # rest', r)))"
proof (intro conjI impI)
  show "create_provider_tags env cfg =
     concat (map (\<lambda>n. [Http_PostTag \<lparr>label = spec_tag_label (tagPrefix cfg) n, tag_id = 0\<rparr>,
                        (case radarr_tag_post env
                                \<lparr>label = spec_tag_label (tagPrefix cfg) n, tag_id = 0\<rparr> of
                           Inr st \<Rightarrow> LogInfo_TagsPostResponse st
                         | Inl e \<Rightarrow> LogError_CreatingTag n e)]) (requiredProviders cfg))"
    by (simp add: create_provider_tags_def create_provider_tags_loop_spec)
next
  show "process_providers cfg add (map (\<lambda>n. \<lparr>provider_name = Some n\<rparr>) names) =
       (concat (map (\<lambda>n. map (\<lambda>t. LogInfo_AddingTag (spec_tag_label (tagPrefix cfg) n))
                            (filter (\<lambda>t. sublist (spec_tag_label (tagPrefix cfg) n) (label t))
                               add))
                    names), None)"
    by (simp add: process_providers_named match_tags_filter)
next
  assume "tmdb_watch_providers env (tmdbId m) = Inr (Response st (Inr js)) \<and>
      results js = Some by_region \<and> by_region (providerRegion cfg) = Some entry \<and>
      flatrate entry = Some (map (\<lambda>n. \<lparr>provider_name = Some n\<rparr>) names)"
  then show "process_movie env cfg rem add m =
        ([LogInfo_Separator, LogInfo_MovieTitle (title m), LogInfo_TmdbId (tmdbId m),
          LogInfo_MovieRecord m, Http_GetTmdbProviders (tmdbId m) (tmdbApiKey cfg),
          LogInfo_TmdbResponse st,
          LogInfo_FlatRateProviders (map (\<lambda>n. \<lparr>provider_name = Some n\<rparr>) names)] @
         concat (map (\<lambda>n. map (\<lambda>t. LogInfo_AddingTag (spec_tag_label (tagPrefix cfg) n))
                               (filter (\<lambda>t. sublist (spec_tag_label (tagPrefix cfg) n) (label t))
                                  add))
                       names) @
         [LogInfo_UpdatedMovie m], m, None)"
    using process_movie_named by blast
next
  assume "tmdb_watch_providers env (tmdbId m) = Inr (Response st (Inr js)) \<and>
      results js = Some by_region \<and> by_region (providerRegion cfg) = Some entry \<and>
      flatrate entry = Some (map (\<lambda>n. \<lparr>provider_name = Some n\<rparr>) names)"
  then have "process_movie env cfg rem add m =
        ([LogInfo_Separator, LogInfo_MovieTitle (title m), LogInfo_TmdbId (tmdbId m),
          LogInfo_MovieRecord m, Http_GetTmdbProviders (tmdbId m) (tmdbApiKey cfg),
          LogInfo_TmdbResponse st,
          LogInfo_FlatRateProviders (map (\<lambda>n. \<lparr>provider_name = Some n\<rparr>) names)] @
         concat (map (\<lambda>n. map (\<lambda>t. LogInfo_AddingTag (spec_tag_label (tagPrefix cfg) n))
                               (filter (\<lambda>t. sublist (spec_tag_label (tagPrefix cfg) n) (label t))
                                  add))
                       names) @
         [LogInfo_UpdatedMovie m], m, None)"
    using process_movie_named by blast
  then show "process_movies env (m # rest) cfg rem add =
          (case process_movies env rest cfg rem add of
             (evs, rest', r) \<Rightarrow>
               ([LogInfo_Separator, LogInfo_MovieTitle (title m), LogInfo_TmdbId (tmdbId m),
                 LogInfo_MovieRecord m, Http_GetTmdbProviders (tmdbId m) (tmdbApiKey cfg),
                 LogInfo_TmdbResponse st,
                 LogInfo_FlatRateProviders (map (\<lambda>n. \<lparr>provider_name = Some n\<rparr>) names)] @
                concat (map (\<lambda>n. map (\<lambda>t. LogInfo_AddingTag (spec_tag_label (tagPrefix cfg) n))
                                      (filter (\<lambda>t. sublist (spec_tag_label (tagPrefix cfg) n)
                                                     (label t)) add))
                              names) @
                [LogInfo_UpdatedMovie m] @ evs, m # rest', r))"
    by (simp split: prod.splits)
qed

theorem tag_label_derivation_witness:
  "tmdb_watch_providers example_env (tmdbId \<lparr>title = ''Alien'', tmdbId = 348, tags = [12]\<rparr>) =
     Inr (Response 200 (Inr \<lparr>results = Some [''US'' \<mapsto>
             \<lparr>flatrate = Some (map (\<lambda>n. \<lparr>provider_name = Some n\<rparr>) [''Netflix'', ''Hulu''])\<rparr>]\<rparr>)) \<and>
   spec_tag_label (tagPrefix example_config) ''Netflix'' = ''t-netflix'' \<and>
   spec_tag_label (tagPrefix example_config) ''Hulu'' = ''t-hulu'' \<and>
   process_movie example_env example_config example_tags example_tags
       \<lparr>title = ''Alien'', tmdbId = 348, tags = [12]\<rparr> =
     ([LogInfo_Separator, LogInfo_MovieTitle ''Alien'', LogInfo_TmdbId 348,
       LogInfo_MovieRecord \<lparr>title = ''Alien'', tmdbId = 348, tags = [12]\<rparr>,
       Http_GetTmdbProviders 348 ''tmdb-key'', LogInfo_TmdbResponse 200,
       LogInfo_FlatRateProviders
         [\<lparr>provider_name = Some ''Netflix''\<rparr>, \<lparr>provider_name = Some ''Hulu''\<rparr>],
       LogInfo_AddingTag ''t-netflix'', LogInfo_AddingTag ''t-hulu'',
       LogInfo_UpdatedMovie \<lparr>title = ''Alien'', tmdbId = 348, tags = [12]\<rparr>],
      \<lparr>title = ''Alien'', tmdbId = 348, tags = [12]\<rparr>, None)"
proof -
  let ?m = "\<lparr>title = ''Alien'', tmdbId = 348, tags = [12]\<rparr>"
  let ?entry = "\<lparr>flatrate = Some (map (\<lambda>n. \<lparr>provider_name = Some n\<rparr>) [''Netflix'', ''Hulu''])\<rparr>"
  let ?js = "\<lparr>results = Some [''US'' \<mapsto> ?entry]\<rparr>"
  have h1: "tmdb_watch_providers example_env (tmdbId ?m) = Inr (Response 200 (Inr ?js))"
    by (simp add: example_env_def example_tmdb_def)
  have h2: "results ?js = Some [''US'' \<mapsto> ?entry]" by simp
  have h3: "[''US'' \<mapsto> ?entry] (providerRegion example_config) = Some ?entry"
    by (simp add: example_config_def)
  have h4: "flatrate ?entry = Some (map (\<lambda>n. \<lparr>provider_name = Some n\<rparr>) [''Netflix'', ''Hulu''])"
    by simp
  have l1: "spec_tag_label (tagPrefix example_config) ''Netflix'' = ''t-netflix''"
    by code_simp
  have l2: "spec_tag_label (tagPrefix example_config) ''Hulu'' = ''t-hulu''"
    by code_simp
  have f1: "filter (\<lambda>t. sublist ''t-netflix'' (label t)) example_tags = [\<lparr>label = ''t-netflix'', tag_id = 10\<rparr>]"
    by code_simp
  have f2: "filter (\<lambda>t. sublist ''t-hulu'' (label t)) example_tags = [\<lparr>label = ''t-hulu'', tag_id = 11\<rparr>]"
    by code_simp
  from tag_label_derivation [of example_env example_config example_tags "[''Netflix'', ''Hulu'']"
      ?m 200 ?js "[''US'' \<mapsto> ?entry]" ?entry example_tags "[]"] h1 h2 h3 h4
  have "process_movie example_env example_config example_tags example_tags ?m =
        ([LogInfo_Separator, LogInfo_MovieTitle (title ?m), LogInfo_TmdbId (tmdbId ?m),
          LogInfo_MovieRecord ?m, Http_GetTmdbProviders (tmdbId ?m) (tmdbApiKey example_config),
          LogInfo_TmdbResponse 200,
          LogInfo_FlatRateProviders (map (\<lambda>n. \<lparr>provider_name = Some n\<rparr>) [''Netflix'', ''Hulu''])] @
         concat (map (\<lambda>n. map (\<lambda>t. LogInfo_AddingTag (spec_tag_label (tagPrefix example_config) n))
                               (filter (\<lambda>t. sublist (spec_tag_label (tagPrefix example_config) n) (label t))
                                  example_tags))
                       [''Netflix'', ''Hulu'']) @
         [LogInfo_UpdatedMovie ?m], ?m, None)"
    by blast
  then show ?thesis
    using h1 l1 l2 f1 f2 by (simp add: example_config_def)
qed

section \<open>The classification of the existing tags\<close>

text \<open>
  Claim C2, as stated, fails: with the prefix \<open>T-\<close> the tag labelled \<open>T-Netflix\<close> has
  the configured prefix in its label (as it is written, and all the more without regard to
  case), and \<open>get_provider_tags\<close> leaves it out of the tags to remove, since it looks
  for \<open>t-\<close> in the label as it is.
\<close>

theorem get_provider_tags_to_remove_not_case_insensitive:
  "sublist ''T-'' ''T-Netflix'' \<and>
   sublist (lower ''T-'') (lower ''T-Netflix'') \<and>
   snd (get_provider_tags
          (example_env\<lparr>radarr_tag_get :=
             Inr (Response 200 (Inr [\<lparr>label = ''T-Netflix'', tag_id = 1\<rparr>]))\<rparr>)
          (example_config\<lparr>tagPrefix := ''T-''\<rparr>) [''netflix'']) = Inr ([], [])"
  by code_simp

text \<open>
  Claim C2, amended. When the tag listing succeeds, the tags to remove are exactly the
  existing tags, in their order, whose label has the lower-cased prefix as a contiguous
  part; the label is taken as it is. Neither the required providers nor the tags to add
  have a part in it. For labels that are in lower case this is containment of the prefix
  without regard to case.
\<close>

theorem get_provider_tags_to_remove:
  "radarr_tag_get env = Inr (Response st (Inr existing_tags)) \<Longrightarrow>
   (\<exists>to_add. snd (get_provider_tags env cfg required_providers_lower) =
      Inr (filter (\<lambda>t. sublist (lower (tagPrefix cfg)) (label t)) existing_tags, to_add))
   \<and> ((\<forall>t \<in> set existing_tags. lower (label t) = label t) \<longrightarrow>
      (\<exists>to_add. snd (get_provider_tags env cfg required_providers_lower) =
         Inr (filter (\<lambda>t. sublist (lower (tagPrefix cfg)) (lower (label t))) existing_tags,
              to_add)))"
  by (auto simp: get_provider_tags_def select_tags_to_remove_def py_contains_sublist
           intro!: filter_cong)

theorem get_provider_tags_to_remove_witness:
  "radarr_tag_get example_env = Inr (Response 200 (Inr example_tags)) \<and>
   list_all (\<lambda>t. lower (label t) = label t) example_tags \<and>
   (\<exists>to_add. snd (get_provider_tags example_env example_config [''netflix'', ''hulu'']) =
      Inr (filter (\<lambda>t. sublist (lower (tagPrefix example_config)) (lower (label t)))
             example_tags, to_add)) \<and>
   (\<exists>to_add. snd (get_provider_tags example_env example_config [''netflix'', ''hulu'']) =
      Inr ([\<lparr>label = ''t-netflix'', tag_id = 10\<rparr>, \<lparr>label = ''t-hulu'', tag_id = 11\<rparr>],
           to_add))"
proof -
  have h: "radarr_tag_get example_env = Inr (Response 200 (Inr example_tags))"
    by (simp add: example_env_def)
  have l: "list_all (\<lambda>t. lower (label t) = label t) example_tags"
    by code_simp
  then have l': "\<forall>t \<in> set example_tags. lower (label t) = label t"
    by (simp add: list_all_iff)
  have f: "filter (\<lambda>t. sublist (lower (tagPrefix example_config)) (label t)) example_tags =
           [\<lparr>label = ''t-netflix'', tag_id = 10\<rparr>, \<lparr>label = ''t-hulu'', tag_id = 11\<rparr>]"
    by code_simp
  from get_provider_tags_to_remove [OF h, of example_config "[''netflix'', ''hulu'']"] h l l' f
  show ?thesis by auto
qed




section \<open>Removing the provider tags of a movie\<close>

lemma remove_provider_tags_loop_foldl:
  "snd (remove_provider_tags_loop ids rem) = foldl (\<lambda>xs t. remove1 (tag_id t) xs) ids rem"
  by (induction rem arbitrary: ids) (simp_all add: list_remove_def remove1_idem split_beta)

lemma foldl_remove1_distinct:
  "distinct ids \<Longrightarrow>
   foldl (\<lambda>xs t. remove1 (tag_id t) xs) ids rem = filter (\<lambda>i. i \<notin> tag_id ` set rem) ids"
proof (induction rem arbitrary: ids)
  case Nil
  then show ?case by simp
next
  case (Cons t ts)
  have "filter (\<lambda>i. i \<notin> tag_id ` set ts) (remove1 (tag_id t) ids) =
        filter (\<lambda>i. i \<notin> tag_id ` set (t # ts)) ids"
    using Cons.prems
    by (auto simp: distinct_remove1_removeAll removeAll_filter_not_eq intro!: filter_cong)
  with Cons show ?case by simp
qed

text \<open>
  Claim C4. The current tag ids of a movie are a set of ids: a list without duplicates.
  For every such list and every list of tags to remove, \<open>remove_provider_tags\<close>
  returns the list with every id found in the tags to remove deleted, the other ids in
  their order; an id that is not in the list is passed over without an error.
  \<open>remove_provider_tags([1,2,3], [{"id":2}])\<close> is \<open>[1,3]\<close> and
  \<open>remove_provider_tags([1,3], [{"id":99}])\<close> is \<open>[1,3]\<close>. On any list, each entry
  of the tags to remove deletes the first occurrence of its id.
\<close>

theorem remove_provider_tags_result:
  "snd (remove_provider_tags ids rem) = foldl (\<lambda>xs t. remove1 (tag_id t) xs) ids rem
   \<and> (distinct ids \<longrightarrow>
        snd (remove_provider_tags ids rem) = filter (\<lambda>i. i \<notin> tag_id ` set rem) ids)
   \<and> snd (remove_provider_tags [1, 2, 3] [\<lparr>label = l, tag_id = 2\<rparr>]) = [1, 3]
   \<and> snd (remove_provider_tags [1, 3] [\<lparr>label = l, tag_id = 99\<rparr>]) = [1, 3]"
proof -
  have eq: "\<And>xs ts. snd (remove_provider_tags xs ts) =
                      foldl (\<lambda>xs t. remove1 (tag_id t) xs) xs ts"
    by (simp add: remove_provider_tags_def split_beta remove_provider_tags_loop_foldl)
  show ?thesis
    by (simp add: eq foldl_remove1_distinct)
qed

theorem remove_provider_tags_result_witness:
  "distinct [4, 7, 9 :: int] \<and>
   snd (remove_provider_tags [4, 7, 9]
          [\<lparr>label = ''t-hulu'', tag_id = 7\<rparr>, \<lparr>label = ''t-max'', tag_id = 5\<rparr>]) = [4, 9]"
  using remove_provider_tags_result
    [of "[4, 7, 9]" "[\<lparr>label = ''t-hulu'', tag_id = 7\<rparr>, \<lparr>label = ''t-max'', tag_id = 5\<rparr>]"]
  by simp

section \<open>Processing the movies\<close>

lemma flatrate_of_lacks:
  "lacks_flatrate js r \<Longrightarrow> flatrate_of js r = Inl KeyError"
  by (auto simp: lacks_flatrate_def flatrate_of_def split: option.splits)

lemma process_movie_skip:
  assumes "tmdb_watch_providers env (tmdbId m) = Inr (Response st (Inr js))"
    and "lacks_flatrate js (providerRegion cfg)"
  shows "process_movie env cfg rem add m =
     ([LogInfo_Separator, LogInfo_MovieTitle (title m), LogInfo_TmdbId (tmdbId m),
       LogInfo_MovieRecord m, Http_GetTmdbProviders (tmdbId m) (tmdbApiKey cfg),
       LogInfo_TmdbResponse st, LogInfo_NoFlatrateProviders], m, None)"
  using assms
  by (simp add: process_movie_def get_tmdb_providers_def flatrate_of_lacks)

text \<open>
  Claim C5. A movie for which TMDB answers with a body that has no entry for the
  configured region, or no \<open>flatrate\<close> under it (or no \<open>results\<close> at all), is skipped:
  \<open>process_movies\<close> logs the movie, the request and "No Flatrate Providers", nothing
  else, and goes on with the remaining movies and the same two tag lists. The movie
  record is as it was, and whether the call raises is decided by the remaining movies
  alone.
\<close>

theorem process_movies_skips_movie_without_flatrate:
  "tmdb_watch_providers env (tmdbId m) = Inr (Response st (Inr js)) \<Longrightarrow>
   lacks_flatrate js (providerRegion cfg) \<Longrightarrow>
   process_movies env (m # rest) cfg rem add =
     (case process_movies env rest cfg rem add of
        (evs, rest', r) \<Rightarrow>
          ([LogInfo_Separator, LogInfo_MovieTitle (title m), LogInfo_TmdbId (tmdbId m),
            LogInfo_MovieRecord m, Http_GetTmdbProviders (tmdbId m) (tmdbApiKey cfg),
            LogInfo_TmdbResponse st, LogInfo_NoFlatrateProviders] @ evs,
           m # rest', r))"
  by (simp add: process_movie_skip split: prod.splits)

theorem process_movies_skips_movie_without_flatrate_witness:
  "tmdb_watch_providers example_env (tmdbId \<lparr>title = ''Heat'', tmdbId = 949, tags = []\<rparr>) =
     Inr (Response 200 (Inr \<lparr>results = Some Map.empty\<rparr>)) \<and>
   lacks_flatrate \<lparr>results = Some Map.empty\<rparr> (providerRegion example_config) \<and>
   process_movies example_env [\<lparr>title = ''Heat'', tmdbId = 949, tags = []\<rparr>] example_config
       example_tags example_tags =
     ([LogInfo_Separator, LogInfo_MovieTitle ''Heat'', LogInfo_TmdbId 949,
       LogInfo_MovieRecord \<lparr>title = ''Heat'', tmdbId = 949, tags = []\<rparr>,
       Http_GetTmdbProviders 949 ''tmdb-key'', LogInfo_TmdbResponse 200,
       LogInfo_NoFlatrateProviders], [\<lparr>title = ''Heat'', tmdbId = 949, tags = []\<rparr>], None)"
proof -
  have h1: "tmdb_watch_providers example_env
              (tmdbId \<lparr>title = ''Heat'', tmdbId = 949, tags = []\<rparr>) =
            Inr (Response 200 (Inr \<lparr>results = Some Map.empty\<rparr>))"
    by (simp add: example_env_def example_tmdb_def)
  have h2: "lacks_flatrate \<lparr>results = Some Map.empty\<rparr> (providerRegion example_config)"
    by (simp add: lacks_flatrate_def)
  show ?thesis
    using process_movies_skips_movie_without_flatrate
            [OF h1 h2, of "[]" example_tags example_tags] h1 h2
    by (simp add: example_config_def)
qed

lemma process_providers_events:
  "ev \<in> set (fst (process_providers cfg add ps)) \<Longrightarrow> \<exists>l. ev = LogInfo_AddingTag l"
proof (induction ps arbitrary: ev)
  case Nil
  then show ?case by simp
next
  case (Cons p ps)
  then show ?case
    by (auto simp: match_tags_filter Let_def split_beta split: option.splits)
qed

lemma process_providers_events_pair:
  "process_providers cfg add ps = (evs, r) \<Longrightarrow> ev \<in> set evs \<Longrightarrow> \<exists>l. ev = LogInfo_AddingTag l"
  using process_providers_events [of ev cfg add ps] by simp

lemma process_movie_frame:
  "fst (snd (process_movie env cfg rem add m)) = m"
  by (auto simp: process_movie_def Let_def split: prod.splits sum.splits exn.splits option.splits)

lemma process_movie_no_put:
  "Http_PutMovie u \<notin> set (fst (process_movie env cfg rem add m))"
  by (auto simp: process_movie_def get_tmdb_providers_def Let_def
      split: prod.splits sum.splits exn.splits option.splits
      dest: process_providers_events_pair)

lemma process_movie_updated:
  "LogInfo_UpdatedMovie u \<in> set (fst (process_movie env cfg rem add m)) \<Longrightarrow> u = m"
  by (auto simp: process_movie_def get_tmdb_providers_def Let_def
      split: prod.splits sum.splits exn.splits option.splits
      dest: process_providers_events_pair)

lemma process_movies_frame:
  "fst (snd (process_movies env movies cfg rem add)) = movies"
proof (induction movies)
  case Nil
  show ?case by simp
next
  case (Cons m ms)
  obtain ev m' r where pm: "process_movie env cfg rem add m = (ev, m', r)"
    by (cases "process_movie env cfg rem add m") auto
  with process_movie_frame [of env cfg rem add m] have "m' = m" by simp
  with pm Cons show ?case
    by (cases r) (simp_all add: split_beta)
qed

lemma process_movies_events:
  "ev \<in> set (fst (process_movies env movies cfg rem add)) \<Longrightarrow>
   \<exists>m \<in> set movies. ev \<in> set (fst (process_movie env cfg rem add m))"
proof (induction movies)
  case Nil
  then show ?case by simp
next
  case (Cons m ms)
  obtain ev1 m' r where pm: "process_movie env cfg rem add m = (ev1, m', r)"
    by (cases "process_movie env cfg rem add m") auto
  show ?case
  proof (cases r)
    case None
    with pm Cons.prems
    have "ev \<in> set ev1 \<or> ev \<in> set (fst (process_movies env ms cfg rem add))"
      by (auto simp: split_beta)
    with pm Cons.IH show ?thesis by auto
  next
    case (Some e)
    with pm Cons.prems show ?thesis by simp
  qed
qed

text \<open>
  Claim C7. For every list of movies, \<open>process_movies\<close> leaves the movie records as
  they were, tags included; no request that updates a movie is in its trace; a record it
  logs as the updated movie is one of the records it was given, and within the iteration
  for a movie it is that movie's record.
\<close>

theorem process_movies_changes_nothing:
  "fst (snd (process_movies env movies cfg rem add)) = movies
   \<and> (\<forall>u. Http_PutMovie u \<notin> set (fst (process_movies env movies cfg rem add)))
   \<and> (\<forall>u. LogInfo_UpdatedMovie u \<in> set (fst (process_movies env movies cfg rem add))
          \<longrightarrow> u \<in> set movies)
   \<and> (\<forall>u. LogInfo_UpdatedMovie u \<in> set (fst (process_movie env cfg rem add m))
          \<longrightarrow> u = m)"
proof (intro conjI allI impI)
  show "fst (snd (process_movies env movies cfg rem add)) = movies"
    by (rule process_movies_frame)
next
  fix u
  show "Http_PutMovie u \<notin> set (fst (process_movies env movies cfg rem add))"
    using process_movies_events [of "Http_PutMovie u" env movies cfg rem add]
      process_movie_no_put by blast
next
  fix u
  assume "LogInfo_UpdatedMovie u \<in> set (fst (process_movies env movies cfg rem add))"
  then obtain m where "m \<in> set movies"
    and "LogInfo_UpdatedMovie u \<in> set (fst (process_movie env cfg rem add m))"
    using process_movies_events by blast
  then show "u \<in> set movies"
    using process_movie_updated by blast
next
  fix u
  assume "LogInfo_UpdatedMovie u \<in> set (fst (process_movie env cfg rem add m))"
  then show "u = m" by (rule process_movie_updated)
qed

theorem process_movies_changes_nothing_witness:
  "LogInfo_UpdatedMovie \<lparr>title = ''Alien'', tmdbId = 348, tags = [12]\<rparr>
     \<in> set (fst (process_movies example_env example_movies example_config
                   example_tags example_tags))
   \<and> LogInfo_UpdatedMovie \<lparr>title = ''Alien'', tmdbId = 348, tags = [12]\<rparr>
     \<in> set (fst (process_movie example_env example_config example_tags example_tags
                   \<lparr>title = ''Alien'', tmdbId = 348, tags = [12]\<rparr>))
   \<and> \<lparr>title = ''Alien'', tmdbId = 348, tags = [12]\<rparr> \<in> set example_movies
   \<and> fst (snd (process_movies example_env example_movies example_config
                  example_tags example_tags)) = example_movies"
proof -
  have a: "LogInfo_UpdatedMovie \<lparr>title = ''Alien'', tmdbId = 348, tags = [12]\<rparr>
     \<in> set (fst (process_movies example_env example_movies example_config
                   example_tags example_tags))"
    by code_simp
  have b: "LogInfo_UpdatedMovie \<lparr>title = ''Alien'', tmdbId = 348, tags = [12]\<rparr>
     \<in> set (fst (process_movie example_env example_config example_tags example_tags
                   \<lparr>title = ''Alien'', tmdbId = 348, tags = [12]\<rparr>))"
    by code_simp
  from process_movies_changes_nothing
         [of example_env example_movies example_config example_tags example_tags] a b
  show ?thesis by blast
qed

section \<open>A failing tag listing\<close>

lemma get_provider_tags_fails:
  "tag_listing_error env = Some e \<Longrightarrow>
   snd (get_provider_tags env cfg rpl) = Inl e \<and>
   set (fst (get_provider_tags env cfg rpl)) \<subseteq>
     {Http_GetTags, LogError_GettingTags e} \<union> range LogInfo_TagsGetResponse"
  by (auto simp: tag_listing_error_def get_provider_tags_def split: sum.splits)

lemma create_provider_tags_loop_events:
  "ev \<in> set (create_provider_tags_loop env cfg names) \<Longrightarrow>
   (\<exists>t. ev = Http_PostTag t) \<or> (\<exists>st. ev = LogInfo_TagsPostResponse st) \<or>
   (\<exists>n e. ev = LogError_CreatingTag n e)"
  by (induction names) (auto simp: Let_def split: sum.splits)

lemma create_provider_tags_events:
  "ev \<in> set (create_provider_tags env cfg) \<Longrightarrow>
   (\<exists>t. ev = Http_PostTag t) \<or> (\<exists>st. ev = LogInfo_TagsPostResponse st) \<or>
   (\<exists>n e. ev = LogError_CreatingTag n e)"
  unfolding create_provider_tags_def by (rule create_provider_tags_loop_events)

text \<open>
  Claim C6. When the configuration has been read and the tag listing fails with an
  exception \<open>e\<close> (raised by the request or by \<open>.json()\<close>), \<open>get_provider_tags\<close> logs it
  and raises it again, and the run ends in the handler of \<open>main\<close>: the trace is that of
  the tag creation and of the failed listing, followed by the "unexpected error" line.
  The movie listing is never asked for (neither the log line that opens
  \<open>get_movies_from_radarr\<close> nor its request is in the trace), and \<open>process_movies\<close> is
  never reached (no "Working on all movies" line, no TMDB request, no movie record).
\<close>

theorem tag_listing_failure_ends_run:
  "config_yaml env = Inr cfg \<Longrightarrow> tag_listing_error env = Some e \<Longrightarrow>
   main env =
     [LogInfo_LoadingConfig,
      LogInfo_RequiredProvidersLower
        (map (\<lambda>x. lower (re_sub_non_alnum x)) (requiredProviders cfg))] @
     create_provider_tags env cfg @
     fst (get_provider_tags env cfg
            (map (\<lambda>x. lower (re_sub_non_alnum x)) (requiredProviders cfg))) @
     [LogError_Unexpected e]
   \<and> last (fst (get_provider_tags env cfg
                  (map (\<lambda>x. lower (re_sub_non_alnum x)) (requiredProviders cfg)))) =
       LogError_GettingTags e
   \<and> Http_GetMovies \<notin> set (main env)
   \<and> (\<forall>url. LogInfo_GettingAllMovies url \<notin> set (main env))
   \<and> LogInfo_WorkingOnAllMovies \<notin> set (main env)
   \<and> (\<forall>i k. Http_GetTmdbProviders i k \<notin> set (main env))
   \<and> (\<forall>m. LogInfo_MovieRecord m \<notin> set (main env))"
proof -
  assume c: "config_yaml env = Inr cfg" and t: "tag_listing_error env = Some e"
  let ?rpl = "map (\<lambda>x. lower (re_sub_non_alnum x)) (requiredProviders cfg)"
  from get_provider_tags_fails [OF t, of cfg ?rpl]
  have r: "snd (get_provider_tags env cfg ?rpl) = Inl e"
    and evs: "set (fst (get_provider_tags env cfg ?rpl)) \<subseteq>
       {Http_GetTags, LogError_GettingTags e} \<union> range LogInfo_TagsGetResponse"
    by simp_all
  have m: "main env =
     [LogInfo_LoadingConfig, LogInfo_RequiredProvidersLower ?rpl] @
     create_provider_tags env cfg @ fst (get_provider_tags env cfg ?rpl) @
     [LogError_Unexpected e]"
    using c r
    by (cases "get_provider_tags env cfg ?rpl") (simp add: main_def load_config_def Let_def)
  have l: "last (fst (get_provider_tags env cfg ?rpl)) = LogError_GettingTags e"
    using t by (auto simp: tag_listing_error_def get_provider_tags_def split: sum.splits)
  have no: "\<And>ev. ev \<in> set (main env) \<Longrightarrow>
      ev = LogInfo_LoadingConfig \<or> ev = LogInfo_RequiredProvidersLower ?rpl \<or>
      (\<exists>t. ev = Http_PostTag t) \<or> (\<exists>st. ev = LogInfo_TagsPostResponse st) \<or>
      (\<exists>n e. ev = LogError_CreatingTag n e) \<or> ev = Http_GetTags \<or>
      ev = LogError_GettingTags e \<or> (\<exists>st. ev = LogInfo_TagsGetResponse st) \<or>
      ev = LogError_Unexpected e"
    using evs create_provider_tags_events [of _ env cfg] unfolding m by auto
  show ?thesis
    using m l no by (intro conjI allI) (assumption, assumption, (blast)+)
qed

theorem tag_listing_failure_ends_run_witness:
  "config_yaml (example_env\<lparr>radarr_tag_get := Inl RequestException\<rparr>) = Inr example_config \<and>
   tag_listing_error (example_env\<lparr>radarr_tag_get := Inl RequestException\<rparr>) =
     Some RequestException \<and>
   main (example_env\<lparr>radarr_tag_get := Inl RequestException\<rparr>) =
     [LogInfo_LoadingConfig, LogInfo_RequiredProvidersLower [''netflix'', ''hulu''],
      Http_PostTag \<lparr>label = ''t-netflix'', tag_id = 0\<rparr>, LogInfo_TagsPostResponse 201,
      Http_PostTag \<lparr>label = ''t-hulu'', tag_id = 0\<rparr>, LogInfo_TagsPostResponse 201,
      Http_GetTags, LogError_GettingTags RequestException,
      LogError_Unexpected RequestException] \<and>
   Http_GetMovies \<notin> set (main (example_env\<lparr>radarr_tag_get := Inl RequestException\<rparr>))"
proof -
  have h1: "config_yaml (example_env\<lparr>radarr_tag_get := Inl RequestException\<rparr>) =
            Inr example_config"
    by (simp add: example_env_def)
  have h2: "tag_listing_error (example_env\<lparr>radarr_tag_get := Inl RequestException\<rparr>) =
            Some RequestException"
    by (simp add: tag_listing_error_def)
  have "main (example_env\<lparr>radarr_tag_get := Inl RequestException\<rparr>) =
     [LogInfo_LoadingConfig, LogInfo_RequiredProvidersLower [''netflix'', ''hulu''],
      Http_PostTag \<lparr>label = ''t-netflix'', tag_id = 0\<rparr>, LogInfo_TagsPostResponse 201,
      Http_PostTag \<lparr>label = ''t-hulu'', tag_id = 0\<rparr>, LogInfo_TagsPostResponse 201,
      Http_GetTags, LogError_GettingTags RequestException,
      LogError_Unexpected RequestException]"
    by code_simp
  with tag_listing_failure_ends_run [OF h1 h2] h1 h2
  show ?thesis by blast
qed

section \<open>The reference dump\<close>

lemma all_providers_of_props:
  "sorted (all_providers_of ps) \<and> distinct (all_providers_of ps) \<and>
   set (all_providers_of ps) =
     (\<lambda>p. case provider_name p of None \<Rightarrow> [] | Some n \<Rightarrow> n) ` set ps"
  by (simp add: all_providers_of_def)

lemma providers_main_success:
  assumes "dump_config_yaml env = Inr cfg"
    and "fetch_data (tmdb_regions_get env) TMDB_REGIONS_ENDPOINT (tmdbApiKey cfg) = Inr regions"
    and "fetch_data (tmdb_providers_get env) TMDB_PROVIDERS_ENDPOINT (tmdbApiKey cfg) =
         Inr providers"
  shows "snd (providers_main env fs) = None"
    and "fst (providers_main env fs) DEFAULT_PROVIDERS_FILENAME =
       Some (''Regions'' @ newline @ ''-------'' @ newline @
             concat (map (\<lambda>r. iso_3166_1 r @ tab @ english_name r @ newline) regions) @
             newline @ newline @ ''Providers'' @ newline @ ''---------'' @ newline @
             concat (map (\<lambda>p. p @ newline) (all_providers_of providers)))"
  using assms
  by (simp_all add: providers_main_def Let_def write_to_file_def remove_existing_file_def)

lemma sorted_distinct_starts_with_Nil:
  fixes L :: "string list"
  assumes "sorted L" "distinct L" "[] \<in> set L"
  shows "\<exists>rest. L = [] # rest \<and> [] \<notin> set rest"
proof (cases L)
  case Nil
  with assms show ?thesis by simp
next
  case (Cons x rest)
  with assms have "x \<le> []" by auto
  then have "x = []" by simp
  with Cons assms show ?thesis by simp
qed




text \<open>
  Claim C10. When the configuration and both reference lists have been fetched and some
  provider record has no \<open>provider_name\<close>, the sorted list of names starts with the
  empty string, which is in it once and is below every other entry, and the provider
  section of the report starts with an empty line.
\<close>

theorem reference_dump_unnamed_provider:
  "dump_config_yaml env = Inr cfg \<Longrightarrow>
   fetch_data (tmdb_regions_get env) TMDB_REGIONS_ENDPOINT (tmdbApiKey cfg) = Inr regions \<Longrightarrow>
   fetch_data (tmdb_providers_get env) TMDB_PROVIDERS_ENDPOINT (tmdbApiKey cfg) =
     Inr providers \<Longrightarrow>
   p \<in> set providers \<Longrightarrow> provider_name p = None \<Longrightarrow>
   \<exists>rest. all_providers_of providers = [] # rest
     \<and> [] \<notin> set rest
     \<and> (\<forall>n \<in> set rest. [] < n)
     \<and> fst (providers_main env fs) DEFAULT_PROVIDERS_FILENAME =
         Some (''Regions'' @ newline @ ''-------'' @ newline @
               concat (map (\<lambda>r. iso_3166_1 r @ tab @ english_name r @ newline) regions) @
               newline @ newline @ ''Providers'' @ newline @ ''---------'' @ newline @
               newline @ concat (map (\<lambda>p. p @ newline) rest))"
proof -
  assume h: "dump_config_yaml env = Inr cfg"
    "fetch_data (tmdb_regions_get env) TMDB_REGIONS_ENDPOINT (tmdbApiKey cfg) = Inr regions"
    "fetch_data (tmdb_providers_get env) TMDB_PROVIDERS_ENDPOINT (tmdbApiKey cfg) =
       Inr providers"
    and p: "p \<in> set providers" "provider_name p = None"
  from p have "[] \<in> (\<lambda>p. case provider_name p of None \<Rightarrow> [] | Some n \<Rightarrow> n) ` set providers"
    by force
  with all_providers_of_props [of providers]
  obtain rest where r: "all_providers_of providers = [] # rest" "[] \<notin> set rest"
    using sorted_distinct_starts_with_Nil [of "all_providers_of providers"] by auto
  have "\<forall>n \<in> set rest. [] < n"
  proof
    fix n :: string
    assume "n \<in> set rest"
    with r(2) have "n \<noteq> []" by auto
    then show "[] < n" by (cases n) simp_all
  qed
  with r providers_main_success(2) [OF h, of fs] show ?thesis
    by simp
qed

theorem reference_dump_unnamed_provider_witness:
  "dump_config_yaml (example_dump_env\<lparr>tmdb_providers_get := example_providers_get_unnamed\<rparr>) =
     Inr example_config \<and>
   \<lparr>provider_name = None\<rparr> \<in>
     set [\<lparr>provider_name = Some ''Netflix''\<rparr>, \<lparr>provider_name = None\<rparr>,
          \<lparr>provider_name = Some ''Hulu''\<rparr>] \<and>
   all_providers_of [\<lparr>provider_name = Some ''Netflix''\<rparr>, \<lparr>provider_name = None\<rparr>,
                     \<lparr>provider_name = Some ''Hulu''\<rparr>] = [[], ''Hulu'', ''Netflix''] \<and>
   (\<exists>rest. all_providers_of [\<lparr>provider_name = Some ''Netflix''\<rparr>, \<lparr>provider_name = None\<rparr>,
                             \<lparr>provider_name = Some ''Hulu''\<rparr>] = [] # rest \<and>
      fst (providers_main
             (example_dump_env\<lparr>tmdb_providers_get := example_providers_get_unnamed\<rparr>)
             Map.empty) DEFAULT_PROVIDERS_FILENAME =
        Some (''Regions'' @ newline @ ''-------'' @ newline @
              concat (map (\<lambda>r. iso_3166_1 r @ tab @ english_name r @ newline)
                        [\<lparr>iso_3166_1 = ''US'', english_name = ''United States''\<rparr>]) @
              newline @ newline @ ''Providers'' @ newline @ ''---------'' @ newline @
              newline @ concat (map (\<lambda>p. p @ newline) rest)))"
proof -
  let ?env = "example_dump_env\<lparr>tmdb_providers_get := example_providers_get_unnamed\<rparr>"
  let ?ps = "[\<lparr>provider_name = Some ''Netflix''\<rparr>, \<lparr>provider_name = None\<rparr>,
              \<lparr>provider_name = Some ''Hulu''\<rparr>]"
  have h1: "dump_config_yaml ?env = Inr example_config"
    by (simp add: example_dump_env_def)
  have h2: "fetch_data (tmdb_regions_get ?env) TMDB_REGIONS_ENDPOINT
              (tmdbApiKey example_config) =
            Inr [\<lparr>iso_3166_1 = ''US'', english_name = ''United States''\<rparr>]"
    by (simp add: example_dump_env_def example_regions_get_def fetch_data_def)
  have h3: "fetch_data (tmdb_providers_get ?env) TMDB_PROVIDERS_ENDPOINT
              (tmdbApiKey example_config) = Inr ?ps"
    by (simp add: example_providers_get_unnamed_def fetch_data_def)
  have h4: "\<lparr>provider_name = None\<rparr> \<in> set ?ps"
    by simp
  have h5: "provider_name \<lparr>provider_name = None\<rparr> = None"
    by simp
  have e: "all_providers_of ?ps = [[], ''Hulu'', ''Netflix'']"
    by code_simp
  from reference_dump_unnamed_provider [OF h1 h2 h3 h4 h5, of Map.empty] h1 h4 e
  show ?thesis by blast
qed

end
